theory Spec2Isabelle
  imports Main "HOL-Library.AList"
begin

section \<open>JavaScript values\<close>

text \<open>
  The values that travel in operation records and SQL parameters. Numbers are the
  integers (sequence numbers, counters, column values); an object is the list of its
  own properties in insertion order, which is the order \<open>Object.keys\<close> and
  \<open>Object.values\<close> enumerate them in.
\<close>

datatype jsval = JNull | JNum int | JStr string | JObj "(string \<times> jsval) list"

type_synonym jsobject = "(string \<times> jsval) list"

text \<open>A counter that \<open>parseInt\<close> may have set to \<open>NaN\<close>.\<close>

datatype number = Num int | NaN

subsection \<open>Decimal text\<close>

definition digit :: "nat \<Rightarrow> char" where
  "digit n = ''0123456789'' ! (n mod 10)"

function show_nat :: "nat \<Rightarrow> string" where
  "show_nat n = (if n < 10 then [digit n] else show_nat (n div 10) @ [digit n])"
  by pat_completeness auto
termination
  by (relation "measure (\<lambda>n. n)") auto

declare show_nat.simps [simp del]

definition show_int :: "int \<Rightarrow> string" where
  "show_int i = (if i < 0 then CHR ''-'' # show_nat (nat (- i)) else show_nat (nat i))"

text \<open>\<open>Number.prototype.toString\<close> and the \<open>${...}\<close> of a template literal.\<close>

fun toString :: "number \<Rightarrow> string" where
  "toString (Num i) = show_int i"
| "toString NaN = ''NaN''"

text \<open>\<open>Array.prototype.findIndex\<close>, with \<open>None\<close> for \<open>-1\<close>.\<close>

fun findIndex :: "('a \<Rightarrow> bool) \<Rightarrow> 'a list \<Rightarrow> nat option" where
  "findIndex P [] = None"
| "findIndex P (x # xs) = (if P x then Some 0 else map_option Suc (findIndex P xs))"

text \<open>The value of a decimal digit: its position among the ten digits.\<close>

definition digit_val :: "char \<Rightarrow> nat option" where
  "digit_val c = findIndex (\<lambda>x. x = c) ''0123456789''"

definition is_digit :: "char \<Rightarrow> bool" where
  "is_digit c = (digit_val c \<noteq> None)"

definition is_space :: "char \<Rightarrow> bool" where
  "is_space c = (c = CHR '' '' \<or> c = CHR 0x09 \<or> c = CHR 0x0A \<or> c = CHR 0x0D)"

definition digits_val :: "string \<Rightarrow> nat" where
  "digits_val s = foldl (\<lambda>a c. 10 * a + (case digit_val c of Some d \<Rightarrow> d | None \<Rightarrow> 0)) 0 s"

text \<open>
  \<open>parseInt(s, 10)\<close>: leading white space is skipped, a sign is read, then the longest
  run of decimal digits; no digit at all gives \<open>NaN\<close>.
\<close>

definition parseInt :: "string \<Rightarrow> number" where
  "parseInt s =
     (let t = dropWhile is_space s;
          neg = (t \<noteq> [] \<and> hd t = CHR ''-'');
          u = (if t \<noteq> [] \<and> (hd t = CHR ''-'' \<or> hd t = CHR ''+'') then tl t else t);
          ds = takeWhile is_digit u
      in if ds = [] then NaN
         else if neg then Num (- int (digits_val ds)) else Num (int (digits_val ds)))"

section \<open>The embedded SQL engine\<close>

text \<open>
  The engine (sql.js) is an external collaborator; the development fixes the part of its
  behaviour that the sync core relies on. A statement is given by its structure, not its
  text: the table, the columns with the parameters bound to them, the savepoint name.
  Kept: existence of tables and columns, the syntax errors of an empty column, SET or
  WHERE list, parameter binding (an object cannot be bound), uniqueness of a declared
  primary key (\<open>NULL\<close> keys never collide), \<open>WHERE\<close> as a conjunction of equalities
  (never true on \<open>NULL\<close>), and named savepoints, which cover every table of the
  database. Not kept: column types and affinity, \<open>NOT NULL\<close> and \<open>DEFAULT\<close>.
  A failed statement leaves the engine as it was. Rows are kept in insertion order, the
  order an unordered \<open>SELECT\<close> returns them in.
\<close>

type_synonym row = "(string \<times> jsval) list"

record table =
  tcolumns :: "string list"
  tkey :: "string option"
  trows :: "row list"

type_synonym dbfile = "(string \<times> table) list"

record engine =
  tables :: dbfile
  savepoints :: "(string \<times> dbfile) list"

datatype sqlerr = SyntaxErr | NoSuchTable | NoSuchColumn | BindErr | ConstraintErr
  | NoSuchSavepoint

definition cell :: "row \<Rightarrow> string \<Rightarrow> jsval" where
  "cell r c = (case map_of r c of Some v \<Rightarrow> v | None \<Rightarrow> JNull)"

fun bindable :: "jsval \<Rightarrow> bool" where
  "bindable (JObj kvs) = False"
| "bindable v = True"

definition matches :: "jsobject \<Rightarrow> row \<Rightarrow> bool" where
  "matches w r = list_all (\<lambda>(c, v). v \<noteq> JNull \<and> cell r c = v) w"

definition keyvals :: "table \<Rightarrow> row list \<Rightarrow> jsval list" where
  "keyvals t rs = (case tkey t of None \<Rightarrow> []
     | Some k \<Rightarrow> filter (\<lambda>v. v \<noteq> JNull) (map (\<lambda>r. cell r k) rs))"

definition clashes :: "table \<Rightarrow> row \<Rightarrow> row \<Rightarrow> bool" where
  "clashes t r r' = (case tkey t of None \<Rightarrow> False
     | Some k \<Rightarrow> cell r k \<noteq> JNull \<and> cell r' k = cell r k)"

definition setTable :: "string \<Rightarrow> table \<Rightarrow> engine \<Rightarrow> engine" where
  "setTable name t e = e\<lparr>tables := AList.update name t (tables e)\<rparr>"

text \<open>\<open>CREATE TABLE IF NOT EXISTS name (cols, PRIMARY KEY (key))\<close>\<close>

definition sqlCreateTable :: "string \<Rightarrow> string list \<Rightarrow> string option \<Rightarrow> engine \<Rightarrow> sqlerr + engine" where
  "sqlCreateTable name cols key e =
     (if cols = [] then Inl SyntaxErr
      else if map_of (tables e) name \<noteq> None then Inr e
      else if \<not> distinct cols then Inl SyntaxErr
      else if (case key of None \<Rightarrow> False | Some k \<Rightarrow> k \<notin> set cols) then Inl NoSuchColumn
      else Inr (e\<lparr>tables := tables e @ [(name, \<lparr>tcolumns = cols, tkey = key, trows = []\<rparr>)]\<rparr>))"

text \<open>\<open>INSERT [OR REPLACE] INTO name (cols) VALUES (?, ...)\<close> with the values bound.\<close>

definition sqlInsert :: "bool \<Rightarrow> string \<Rightarrow> jsobject \<Rightarrow> engine \<Rightarrow> sqlerr + engine" where
  "sqlInsert orReplace name kvs e =
     (if kvs = [] then Inl SyntaxErr
      else case map_of (tables e) name of
        None \<Rightarrow> Inl NoSuchTable
      | Some t \<Rightarrow>
          if \<not> set (map fst kvs) \<subseteq> set (tcolumns t) then Inl NoSuchColumn
          else if \<not> list_all bindable (map snd kvs) then Inl BindErr
          else let r = map (\<lambda>c. (c, cell kvs c)) (tcolumns t) in
            if \<not> orReplace \<and> list_ex (clashes t r) (trows t) then Inl ConstraintErr
            else Inr (setTable name
                   (t\<lparr>trows := filter (\<lambda>r'. \<not> clashes t r r') (trows t) @ [r]\<rparr>) e))"

definition assign :: "jsobject \<Rightarrow> row \<Rightarrow> row" where
  "assign sets r = map (\<lambda>(c, v). (c, case map_of sets c of Some v' \<Rightarrow> v' | None \<Rightarrow> v)) r"

text \<open>\<open>UPDATE name SET c = ?, ... WHERE c = ? AND ...\<close>\<close>

definition sqlUpdate :: "string \<Rightarrow> jsobject \<Rightarrow> jsobject \<Rightarrow> engine \<Rightarrow> sqlerr + engine" where
  "sqlUpdate name sets wh e =
     (if sets = [] \<or> wh = [] then Inl SyntaxErr
      else case map_of (tables e) name of
        None \<Rightarrow> Inl NoSuchTable
      | Some t \<Rightarrow>
          if \<not> set (map fst sets @ map fst wh) \<subseteq> set (tcolumns t) then Inl NoSuchColumn
          else if \<not> list_all bindable (map snd sets @ map snd wh) then Inl BindErr
          else let rs = map (\<lambda>r. if matches wh r then assign sets r else r) (trows t) in
            if \<not> distinct (keyvals t rs) then Inl ConstraintErr
            else Inr (setTable name (t\<lparr>trows := rs\<rparr>) e))"

text \<open>\<open>DELETE FROM name WHERE c = ? AND ...\<close>\<close>

definition sqlDelete :: "string \<Rightarrow> jsobject \<Rightarrow> engine \<Rightarrow> sqlerr + engine" where
  "sqlDelete name wh e =
     (if wh = [] then Inl SyntaxErr
      else case map_of (tables e) name of
        None \<Rightarrow> Inl NoSuchTable
      | Some t \<Rightarrow>
          if \<not> set (map fst wh) \<subseteq> set (tcolumns t) then Inl NoSuchColumn
          else if \<not> list_all bindable (map snd wh) then Inl BindErr
          else Inr (setTable name (t\<lparr>trows := filter (\<lambda>r. \<not> matches wh r) (trows t)\<rparr>) e))"

text \<open>\<open>SELECT * FROM name\<close>\<close>

definition sqlSelectAll :: "string \<Rightarrow> engine \<Rightarrow> sqlerr + row list" where
  "sqlSelectAll name e = (case map_of (tables e) name of
       None \<Rightarrow> Inl NoSuchTable | Some t \<Rightarrow> Inr (trows t))"

text \<open>
  Savepoints form a stack, the most recent first. \<open>RELEASE\<close> removes the named savepoint
  and every later one; \<open>ROLLBACK TO\<close> restores the tables to what they were when the
  named savepoint was set, removes the later ones and keeps the named one. Both fail when
  no savepoint has the name.
\<close>

definition sqlSavepoint :: "string \<Rightarrow> engine \<Rightarrow> engine" where
  "sqlSavepoint n e = e\<lparr>savepoints := (n, tables e) # savepoints e\<rparr>"

definition sqlRelease :: "string \<Rightarrow> engine \<Rightarrow> sqlerr + engine" where
  "sqlRelease n e = (case dropWhile (\<lambda>(m, _). m \<noteq> n) (savepoints e) of
       [] \<Rightarrow> Inl NoSuchSavepoint
     | _ # rest \<Rightarrow> Inr (e\<lparr>savepoints := rest\<rparr>))"

definition sqlRollbackTo :: "string \<Rightarrow> engine \<Rightarrow> sqlerr + engine" where
  "sqlRollbackTo n e = (case dropWhile (\<lambda>(m, _). m \<noteq> n) (savepoints e) of
       [] \<Rightarrow> Inl NoSuchSavepoint
     | (m, snap) # rest \<Rightarrow> Inr (e\<lparr>tables := snap, savepoints := (m, snap) # rest\<rparr>))"

text \<open>
  \<open>export()\<close> gives the current tables as a file and leaves the engine as it is;
  \<open>new Database(data)\<close> opens a file with no savepoint, \<open>new Database()\<close> an empty one.
\<close>

definition export :: "engine \<Rightarrow> dbfile" where
  "export e = tables e"

definition openFile :: "dbfile \<Rightarrow> engine" where
  "openFile f = \<lparr>tables = f, savepoints = []\<rparr>"

section \<open>Operations, the host and the database object\<close>

text \<open>
  \<open>types.ts\<close>: an \<open>Operation\<close> carries the sequence number the authority gave it and
  may carry a local one; a \<open>PendingOperation\<close> has no \<open>seq\<close> and always a local one.
  The \<open>type\<close> field is a string at run time (an operation read off the network can hold
  any), and \<open>data\<close> is an open object whose reserved key \<open>_where\<close> holds the predicate.
\<close>

record pendingOperation =
  p_id :: string
  p_localSeq :: number
  p_table :: string
  p_type :: string
  p_data :: jsobject
  p_clientId :: string

record operation =
  op_id :: string
  op_seq :: int
  op_table :: string
  op_type :: string
  op_data :: jsobject
  op_clientId :: string
  op_localSeq :: "number option"

text \<open>\<open>{...pending, seq: n} as Operation\<close>\<close>

definition withSeq :: "pendingOperation \<Rightarrow> int \<Rightarrow> operation" where
  "withSeq p n = \<lparr>op_id = p_id p, op_seq = n, op_table = p_table p, op_type = p_type p,
     op_data = p_data p, op_clientId = p_clientId p, op_localSeq = Some (p_localSeq p)\<rparr>"

text \<open>
  \<open>localStorage\<close> maps keys to strings. A cell written by \<open>persist\<close> holds the JSON text
  of the exported bytes; the model keeps the exported file in its place (\<open>Blob\<close>), any
  other string is \<open>Text\<close>. The console keeps the message of each call, without the error
  object passed along with some of them.
\<close>

datatype stored = Text string | Blob dbfile

datatype logline = LogInfo string | LogWarn string | LogError string

record host =
  localStorage :: "string \<rightharpoonup> stored"
  console :: "logline list"
  initSqlJs :: bool

text \<open>The wire: what \<open>connection.send\<close> was given, in order.\<close>

record envelope =
  env_type :: string
  env_operation :: pendingOperation

datatype callback = OnRoomCreate | OnConnect "operation list" | OnInput operation | OnDisconnect

text \<open>
  \<open>SyncManager\<close>, without its back reference to the database: the connection is \<open>None\<close>
  while \<open>null\<close> and otherwise the list of envelopes sent on it; \<open>fired\<close> records the user
  callbacks invoked.
\<close>

record syncManager =
  connection :: "envelope list option"
  roomId :: string
  isOnline :: bool
  fired :: "callback list"

text \<open>
  \<open>class Database\<close>. The only listener ever stored in \<open>onOperation\<close> is the closure
  \<open>(op) => this.handleLocalOperation(op)\<close> of a \<open>SyncManager\<close>, so the field holds that
  manager.
\<close>

record database =
  db :: "engine option"
  dbName :: string
  localSeqCounter :: number
  clientId :: string
  confirmedSeq :: int
  savepointSeq :: int
  pendingOps :: "pendingOperation list"
  confirmedOps :: "operation list"
  onOperation :: "syncManager option"

datatype error = NotInitialized | LoadFailed | TypeError | SqlError sqlerr

type_synonym state = "database \<times> host"

definition newDatabase :: "string \<Rightarrow> string \<Rightarrow> database" where
  "newDatabase name cid = \<lparr>db = None, dbName = name, localSeqCounter = Num 0, clientId = cid,
     confirmedSeq = 0, savepointSeq = 0, pendingOps = [], confirmedOps = [],
     onOperation = None\<rparr>"

definition logTo :: "logline \<Rightarrow> state \<Rightarrow> state" where
  "logTo l = (\<lambda>(d, h). (d, h\<lparr>console := console h @ [l]\<rparr>))"

definition blobKey :: "string \<Rightarrow> string" where
  "blobKey name = ''modusql_'' @ name"

definition persist :: "state \<Rightarrow> state" where
  "persist = (\<lambda>(d, h). case db d of
       None \<Rightarrow> (d, h)
     | Some e \<Rightarrow> (d, h\<lparr>localStorage := (localStorage h)(blobKey (dbName d) \<mapsto> Blob (export e))\<rparr>))"

subsection \<open>Objects and JSON text\<close>

fun truthy :: "jsval \<Rightarrow> bool" where
  "truthy JNull = False"
| "truthy (JNum n) = (n \<noteq> 0)"
| "truthy (JStr s) = (s \<noteq> [])"
| "truthy (JObj kvs) = True"

text \<open>
  The own enumerable properties of a value, as \<open>Object.keys\<close> and \<open>Object.values\<close> give
  them: those of an object, the indexed characters of a string, none of a number.
\<close>

fun entries :: "jsval \<Rightarrow> jsobject" where
  "entries (JObj kvs) = kvs"
| "entries (JStr s) = zip (map show_nat [0..<length s]) (map (\<lambda>c. JStr [c]) s)"
| "entries v = []"

text \<open>\<open>data._where || {}\<close>, enumerated.\<close>

definition whereOf :: "jsobject \<Rightarrow> jsobject" where
  "whereOf data = (case map_of data ''_where'' of
       None \<Rightarrow> []
     | Some v \<Rightarrow> if truthy v then entries v else [])"

definition escape :: "string \<Rightarrow> string" where
  "escape s = concat (map (\<lambda>c. if c = CHR 0x22 then [CHR 0x5C, CHR 0x22]
       else if c = CHR 0x5C then [CHR 0x5C, CHR 0x5C] else [c]) s)"

definition quote :: "string \<Rightarrow> string" where
  "quote s = CHR 0x22 # escape s @ [CHR 0x22]"

text \<open>\<open>JSON.stringify\<close> (control characters are written as they are).\<close>

fun stringify :: "jsval \<Rightarrow> string" and stringify_members :: "jsobject \<Rightarrow> string" where
  "stringify JNull = ''null''"
| "stringify (JNum n) = show_int n"
| "stringify (JStr s) = quote s"
| "stringify (JObj kvs) = ''{'' @ stringify_members kvs @ ''}''"
| "stringify_members [] = []"
| "stringify_members ((k, v) # kvs) =
     quote k @ '':'' @ stringify v @ (if kvs = [] then [] else '','' @ stringify_members kvs)"

text \<open>A number as an SQL parameter: \<open>NaN\<close> is stored as \<open>NULL\<close>.\<close>

fun numVal :: "number \<Rightarrow> jsval" where
  "numVal (Num i) = JNum i"
| "numVal NaN = JNull"

fun incr :: "number \<Rightarrow> number" where
  "incr (Num i) = Num (i + 1)"
| "incr NaN = NaN"

section \<open>The apply path\<close>

type_synonym 'a outcome = "(error + 'a) \<times> state"

definition setDb :: "engine \<Rightarrow> state \<Rightarrow> state" where
  "setDb e = (\<lambda>(d, h). (d\<lparr>db := Some e\<rparr>, h))"

text \<open>
  \<open>try { this.db!.run(...) } catch (e) { console.warn(msg, e) }\<close>: the statement either
  replaces the engine or leaves it and logs.
\<close>

definition tryRun :: "(engine \<Rightarrow> sqlerr + engine) \<Rightarrow> string \<Rightarrow> state \<Rightarrow> state" where
  "tryRun stmt msg = (\<lambda>(d, h). case db d of
       None \<Rightarrow> logTo (LogWarn msg) (d, h)
     | Some e \<Rightarrow> (case stmt e of
          Inl err \<Rightarrow> logTo (LogWarn msg) (d, h)
        | Inr e' \<Rightarrow> setDb e' (d, h)))"

definition applyInsert :: "operation \<Rightarrow> state \<Rightarrow> state" where
  "applyInsert op =
     (let data = AList.delete ''_where'' (op_data op)
      in tryRun (sqlInsert True (op_table op) data) ''Failed to apply INSERT:'')"

definition applyUpdate :: "operation \<Rightarrow> state \<Rightarrow> state" where
  "applyUpdate op =
     (let wh = whereOf (op_data op);
          data = AList.delete ''_where'' (op_data op)
      in tryRun (sqlUpdate (op_table op) data wh) ''Failed to apply UPDATE:'')"

definition applyDelete :: "operation \<Rightarrow> state \<Rightarrow> state" where
  "applyDelete op =
     (let wh = whereOf (op_data op)
      in tryRun (sqlDelete (op_table op) wh) ''Failed to apply DELETE:'')"

text \<open>The \<open>switch\<close> on \<open>op.type\<close> has three cases and no default.\<close>

definition applyOp :: "operation \<Rightarrow> state \<Rightarrow> state" where
  "applyOp op s =
     (if op_type op = ''INSERT'' then applyInsert op s
      else if op_type op = ''UPDATE'' then applyUpdate op s
      else if op_type op = ''DELETE'' then applyDelete op s
      else s)"

section \<open>Checkpoints and the reconciler\<close>

definition savepointName :: "int \<Rightarrow> string" where
  "savepointName n = ''modusql_seq_'' @ show_int n"

definition createSavepoint :: "state \<Rightarrow> state" where
  "createSavepoint = (\<lambda>(d, h). case db d of
       None \<Rightarrow> (d, h)
     | Some e \<Rightarrow>
         let e1 = (if savepointSeq d > 0
                   then (case sqlRelease (savepointName (savepointSeq d)) e of
                           Inl err \<Rightarrow> e | Inr e' \<Rightarrow> e')
                   else e);
             d1 = d\<lparr>savepointSeq := confirmedSeq d\<rparr>
         in (d1\<lparr>db := Some (sqlSavepoint (savepointName (savepointSeq d1)) e1)\<rparr>, h))"

definition rollbackAndReplay :: "operation \<Rightarrow> state \<Rightarrow> state" where
  "rollbackAndReplay newOp = (\<lambda>(d, h). case db d of
       None \<Rightarrow> (d, h)
     | Some e \<Rightarrow>
         let s0 = logTo (LogInfo (''[ModuSQL] Rolling back to seq '' @ show_int (savepointSeq d)
                     @ '' and replaying'')) (d, h)
         in case sqlRollbackTo (savepointName (savepointSeq d)) e of
              Inl err \<Rightarrow> logTo (LogError ''[ModuSQL] Rollback failed:'') s0
            | Inr e' \<Rightarrow>
                let s1 = applyOp newOp (setDb e' s0);
                    s2 = foldl (\<lambda>s p. applyOp (withSeq p 0) s) s1 (pendingOps d)
                in createSavepoint s2)"

text \<open>\<open>xs.splice(i, 1)\<close>\<close>

definition splice1 :: "nat \<Rightarrow> 'a list \<Rightarrow> 'a list" where
  "splice1 i xs = take i xs @ drop (Suc i) xs"

definition opsRow :: "operation \<Rightarrow> jsobject" where
  "opsRow op = [(''id'', JStr (op_id op)), (''seq'', JNum (op_seq op)),
     (''table_name'', JStr (op_table op)), (''op_type'', JStr (op_type op)),
     (''data'', JStr (stringify (JObj (op_data op)))), (''client_id'', JStr (op_clientId op)),
     (''confirmed'', JNum 1)]"

text \<open>
  The part of \<open>applyOperation\<close> after the branches: reorder if a remote operation met
  pending ones, record the operation as confirmed, persist.
\<close>

definition finishApply :: "operation \<Rightarrow> bool \<Rightarrow> state \<Rightarrow> unit outcome" where
  "finishApply op isPending s =
     (let s1 = (if pendingOps (fst s) \<noteq> [] \<and> \<not> isPending then rollbackAndReplay op s else s)
      in case db (fst s1) of
           None \<Rightarrow> (Inl TypeError, s1)
         | Some e \<Rightarrow> (case sqlInsert True ''_modusql_ops'' (opsRow op) e of
              Inl err \<Rightarrow> (Inl (SqlError err), s1)
            | Inr e' \<Rightarrow> (Inr (), persist (setDb e' s1))))"

definition confirm :: "operation \<Rightarrow> state \<Rightarrow> state" where
  "confirm op = (\<lambda>(d, h).
     (d\<lparr>confirmedSeq := op_seq op, confirmedOps := confirmedOps d @ [op]\<rparr>, h))"

definition applyOperation :: "operation \<Rightarrow> state \<Rightarrow> unit outcome" where
  "applyOperation op = (\<lambda>(d, h). case db d of
       None \<Rightarrow> (Inl NotInitialized, (d, h))
     | Some e \<Rightarrow>
         let expectedSeq = confirmedSeq d + 1;
             pendingIndex = findIndex (\<lambda>p. p_id p = op_id op) (pendingOps d);
             isPending = (pendingIndex \<noteq> None)
         in if op_seq op = expectedSeq then
              let s1 = (case pendingIndex of
                          Some i \<Rightarrow> (d\<lparr>pendingOps := splice1 i (pendingOps d)\<rparr>, h)
                        | None \<Rightarrow> applyOp op (d, h))
              in finishApply op isPending (createSavepoint (confirm op s1))
            else if op_seq op > expectedSeq then
              let s0 = logTo (LogWarn (''[ModuSQL] Received seq '' @ show_int (op_seq op)
                          @ '', expected '' @ show_int expectedSeq @ ''. Buffering.'')) (d, h);
                  s1 = (if \<not> isPending then applyOp op s0 else s0)
              in finishApply op isPending (confirm op s1)
            else if op_seq op \<le> confirmedSeq d then (Inr (), (d, h))
            else finishApply op isPending (d, h))"

section \<open>The transport adapter\<close>

text \<open>
  A \<open>NetworkInput\<close>; \<open>data\<close> is \<open>None\<close> when the input carries none, and otherwise an
  envelope with whatever \<open>type\<close> the sender wrote.
\<close>

record networkInput =
  in_id :: string
  in_clientId :: string
  in_type :: string
  in_data :: "envelope option"
  in_seq :: int

definition inputToOperation :: "networkInput \<Rightarrow> operation option" where
  "inputToOperation input = (case in_data input of
       None \<Rightarrow> None
     | Some env \<Rightarrow> if env_type env \<noteq> ''sumql_op'' then None
                  else Some (withSeq (env_operation env) (in_seq input)))"

definition send :: "envelope \<Rightarrow> syncManager \<Rightarrow> syncManager" where
  "send env m = m\<lparr>connection := map_option (\<lambda>sent. sent @ [env]) (connection m)\<rparr>"

definition handleLocalOperation :: "pendingOperation \<Rightarrow> syncManager \<Rightarrow> syncManager" where
  "handleLocalOperation op m =
     (if connection m \<noteq> None \<and> isOnline m
      then send \<lparr>env_type = ''sumql_op'', env_operation = op\<rparr> m
      else m)"

definition flushPendingOps :: "pendingOperation list \<Rightarrow> syncManager \<Rightarrow> syncManager" where
  "flushPendingOps pending m =
     (if connection m = None \<or> \<not> isOnline m then m
      else foldl (\<lambda>m op. send \<lparr>env_type = ''sumql_op'', env_operation = op\<rparr> m) m pending)"

definition fire :: "callback \<Rightarrow> state \<Rightarrow> state" where
  "fire c = (\<lambda>(d, h). (d\<lparr>onOperation := map_option (\<lambda>m. m\<lparr>fired := fired m @ [c]\<rparr>) (onOperation d)\<rparr>, h))"

text \<open>The \<open>onInput\<close> handler given to the transport.\<close>

definition onInput :: "networkInput \<Rightarrow> state \<Rightarrow> unit outcome" where
  "onInput input s = (case inputToOperation input of
       None \<Rightarrow> (Inr (), s)
     | Some op \<Rightarrow> (case applyOperation op s of
          (Inl err, s') \<Rightarrow> (Inl err, s')
        | (Inr u, s') \<Rightarrow> (Inr (), fire (OnInput op) s')))"

text \<open>
  The \<open>onJoin\<close> handler: the inputs are sorted by \<open>seq\<close> (the sort is stable), each
  recognised one is applied and collected, then \<open>onConnect\<close> is called with the collected
  operations. An exception in \<open>applyOperation\<close> ends the handler.
\<close>

fun applyInputs :: "networkInput list \<Rightarrow> operation list \<Rightarrow> state \<Rightarrow> operation list outcome" where
  "applyInputs [] ops s = (Inr ops, s)"
| "applyInputs (i # rest) ops s = (case inputToOperation i of
       None \<Rightarrow> applyInputs rest ops s
     | Some op \<Rightarrow> (case applyOperation op s of
          (Inl err, s') \<Rightarrow> (Inl err, s')
        | (Inr u, s') \<Rightarrow> applyInputs rest (ops @ [op]) s'))"

definition onJoin :: "networkInput list \<Rightarrow> state \<Rightarrow> unit outcome" where
  "onJoin inputs s =
     (let s0 = logTo (LogInfo (''[ModuSQL] Joined room, applying '' @ show_nat (length inputs)
                  @ '' inputs'')) s
      in case applyInputs (sort_key in_seq inputs) [] s0 of
           (Inl err, s') \<Rightarrow> (Inl err, s')
         | (Inr ops, s') \<Rightarrow> (Inr (), fire (OnConnect ops) s'))"

section \<open>Local mutations and the life cycle\<close>

definition pendingRow :: "pendingOperation \<Rightarrow> jsobject" where
  "pendingRow op = [(''id'', JStr (p_id op)), (''local_seq'', numVal (p_localSeq op)),
     (''table_name'', JStr (p_table op)), (''op_type'', JStr (p_type op)),
     (''data'', JStr (stringify (JObj (p_data op)))), (''client_id'', JStr (p_clientId op)),
     (''confirmed'', JNum 0)]"

text \<open>\<open>now\<close> is the value \<open>Date.now()\<close> returns at the call.\<close>

definition createOperation :: "string \<Rightarrow> string \<Rightarrow> jsobject \<Rightarrow> nat \<Rightarrow> state \<Rightarrow> pendingOperation outcome" where
  "createOperation tbl ty data now = (\<lambda>(d, h).
     let n = incr (localSeqCounter d);
         op = \<lparr>p_id = clientId d @ ''_'' @ toString n @ ''_'' @ show_nat now, p_localSeq = n,
                p_table = tbl, p_type = ty, p_data = data, p_clientId = clientId d\<rparr>;
         d1 = d\<lparr>localSeqCounter := n, pendingOps := pendingOps d @ [op]\<rparr>
     in case db d1 of
          None \<Rightarrow> (Inl TypeError, (d1, h))
        | Some e \<Rightarrow> (case sqlInsert False ''_modusql_ops'' (pendingRow op) e of
             Inl err \<Rightarrow> (Inl (SqlError err), (d1, h))
           | Inr e1 \<Rightarrow> (case sqlInsert True ''_modusql_meta''
                               [(''key'', JStr ''local_seq''), (''value'', JStr (toString n))] e1 of
                Inl err \<Rightarrow> (Inl (SqlError err), (d1\<lparr>db := Some e1\<rparr>, h))
              | Inr e2 \<Rightarrow>
                  (case persist (d1\<lparr>db := Some e2\<rparr>, h) of (d2, h2) \<Rightarrow>
                     (Inr op, (d2\<lparr>onOperation := map_option (handleLocalOperation op) (onOperation d2)\<rparr>, h2))))))"

text \<open>A mutation runs its statement, then logs the operation, then persists once more.\<close>

definition mutate :: "(engine \<Rightarrow> sqlerr + engine) \<Rightarrow> string \<Rightarrow> string \<Rightarrow> jsobject \<Rightarrow> nat
    \<Rightarrow> state \<Rightarrow> pendingOperation outcome" where
  "mutate stmt tbl ty data now = (\<lambda>(d, h). case db d of
       None \<Rightarrow> (Inl NotInitialized, (d, h))
     | Some e \<Rightarrow> (case stmt e of
          Inl err \<Rightarrow> (Inl (SqlError err), (d, h))
        | Inr e' \<Rightarrow> (case createOperation tbl ty data now (d\<lparr>db := Some e'\<rparr>, h) of
             (Inl err, s) \<Rightarrow> (Inl err, s)
           | (Inr op, s) \<Rightarrow> (Inr op, persist s))))"

definition insert_row :: "string \<Rightarrow> jsobject \<Rightarrow> nat \<Rightarrow> state \<Rightarrow> pendingOperation outcome" where
  "insert_row tbl data now = mutate (sqlInsert False tbl data) tbl ''INSERT'' data now"

definition update_rows :: "string \<Rightarrow> jsobject \<Rightarrow> jsobject \<Rightarrow> nat \<Rightarrow> state \<Rightarrow> pendingOperation outcome" where
  "update_rows tbl data wh now =
     mutate (sqlUpdate tbl data wh) tbl ''UPDATE'' (AList.update ''_where'' (JObj wh) data) now"

definition delete_rows :: "string \<Rightarrow> jsobject \<Rightarrow> nat \<Rightarrow> state \<Rightarrow> pendingOperation outcome" where
  "delete_rows tbl wh now =
     mutate (sqlDelete tbl wh) tbl ''DELETE'' [(''_where'', JObj wh)] now"

record columnDef =
  col_name :: string
  col_type :: string
  col_nullable :: "bool option"
  col_default :: "jsval option"

record tableSchema =
  ts_name :: string
  ts_columns :: "columnDef list"
  ts_primaryKey :: "string option"

definition createTable :: "tableSchema \<Rightarrow> state \<Rightarrow> unit outcome" where
  "createTable schema = (\<lambda>(d, h). case db d of
       None \<Rightarrow> (Inl NotInitialized, (d, h))
     | Some e \<Rightarrow>
         let key = (case ts_primaryKey schema of
                      None \<Rightarrow> None | Some k \<Rightarrow> if k = [] then None else Some k)
         in case sqlCreateTable (ts_name schema) (map col_name (ts_columns schema)) key e of
              Inl err \<Rightarrow> (Inl (SqlError err), (d, h))
            | Inr e' \<Rightarrow> (Inr (), persist (d\<lparr>db := Some e'\<rparr>, h)))"

text \<open>\<open>query\<close>, for the statements \<open>SELECT * FROM name\<close>.\<close>

definition query :: "string \<Rightarrow> state \<Rightarrow> error + row list" where
  "query name = (\<lambda>(d, h). case db d of
       None \<Rightarrow> Inl NotInitialized
     | Some e \<Rightarrow> (case sqlSelectAll name e of Inl err \<Rightarrow> Inl (SqlError err) | Inr rs \<Rightarrow> Inr rs))"



text \<open>\<open>parseInt\<close> of a column value: its argument is converted to a string first.\<close>

fun parseIntVal :: "jsval \<Rightarrow> number" where
  "parseIntVal (JStr s) = parseInt s"
| "parseIntVal (JNum i) = Num i"
| "parseIntVal v = NaN"

text \<open>\<open>SELECT value FROM _modusql_meta WHERE key = 'local_seq'\<close>\<close>

definition sqlSelectLocalSeq :: "engine \<Rightarrow> sqlerr + jsval list" where
  "sqlSelectLocalSeq e = (case map_of (tables e) ''_modusql_meta'' of
       None \<Rightarrow> Inl NoSuchTable
     | Some t \<Rightarrow>
         if \<not> {''key'', ''value''} \<subseteq> set (tcolumns t) then Inl NoSuchColumn
         else Inr (map (\<lambda>r. cell r ''value'')
                (filter (matches [(''key'', JStr ''local_seq'')]) (trows t))))"

definition opsColumns :: "string list" where
  "opsColumns = [''id'', ''seq'', ''local_seq'', ''table_name'', ''op_type'', ''data'',
     ''client_id'', ''confirmed'']"

text \<open>
  \<open>init\<close>. The script load succeeds when the host can provide \<open>initSqlJs\<close>. A stored
  database is opened; an empty string counts as none; any other text is taken not to
  parse as an exported database.
\<close>

definition init :: "state \<Rightarrow> unit outcome" where
  "init = (\<lambda>(d, h).
     if \<not> initSqlJs h then (Inl LoadFailed, (d, h))
     else case (case localStorage h (blobKey (dbName d)) of
                  None \<Rightarrow> Some (openFile [])
                | Some (Blob f) \<Rightarrow> Some (openFile f)
                | Some (Text t) \<Rightarrow> if t = [] then Some (openFile []) else None) of
       None \<Rightarrow> (Inl LoadFailed, (d, h))
     | Some e0 \<Rightarrow>
        (case sqlCreateTable ''_modusql_meta'' [''key'', ''value''] (Some ''key'') e0 of
           Inl err \<Rightarrow> (Inl (SqlError err), (d\<lparr>db := Some e0\<rparr>, h))
         | Inr e1 \<Rightarrow>
            (case sqlCreateTable ''_modusql_ops'' opsColumns (Some ''id'') e1 of
               Inl err \<Rightarrow> (Inl (SqlError err), (d\<lparr>db := Some e1\<rparr>, h))
             | Inr e2 \<Rightarrow>
                (case sqlSelectLocalSeq e2 of
                   Inl err \<Rightarrow> (Inl (SqlError err), (d\<lparr>db := Some e2\<rparr>, h))
                 | Inr [] \<Rightarrow> (Inr (), (d\<lparr>db := Some e2\<rparr>, h))
                 | Inr (v # vs) \<Rightarrow>
                     (Inr (), (d\<lparr>db := Some e2, localSeqCounter := parseIntVal v\<rparr>, h))))))"

section \<open>The public object\<close>

record moduSQLConfig =
  cfg_dbName :: "string option"
  cfg_roomId :: "string option"

text \<open>
  \<open>generateClientId\<close>: \<open>now\<close> and \<open>rnd\<close> are \<open>Date.now()\<close> and the nine characters taken
  from \<open>Math.random()\<close>; \<open>jsonText\<close> gives the JSON text of a stored database, which is what
  the function returns when the cell holds one.
\<close>

definition clientIdKey :: string where
  "clientIdKey = ''modusql_client_id''"

definition generateClientId :: "(dbfile \<Rightarrow> string) \<Rightarrow> nat \<Rightarrow> string \<Rightarrow> host \<Rightarrow> string \<times> host" where
  "generateClientId jsonText now rnd h =
     (let fresh = ''client_'' @ show_nat now @ ''_'' @ rnd
      in case localStorage h clientIdKey of
           None \<Rightarrow> (fresh, h\<lparr>localStorage := (localStorage h)(clientIdKey \<mapsto> Text fresh)\<rparr>)
         | Some (Blob f) \<Rightarrow> (jsonText f, h)
         | Some (Text t) \<Rightarrow>
             if t \<noteq> [] then (t, h)
             else (fresh, h\<lparr>localStorage := (localStorage h)(clientIdKey \<mapsto> Text fresh)\<rparr>))"

text \<open>\<open>new ModuSQL(config)\<close>: the client id, then the database object.\<close>

definition newModuSQL :: "moduSQLConfig \<Rightarrow> (dbfile \<Rightarrow> string) \<Rightarrow> nat \<Rightarrow> string \<Rightarrow> host \<Rightarrow> state" where
  "newModuSQL config jsonText now rnd h =
     (case generateClientId jsonText now rnd h of (cid, h') \<Rightarrow>
        (newDatabase (case cfg_dbName config of
                        None \<Rightarrow> ''modusql'' | Some n \<Rightarrow> if n = [] then ''modusql'' else n) cid, h'))"

section \<open>Well-formed engines and the scenarios used below\<close>







text \<open>
  A host with an empty \<open>localStorage\<close>; the table \<open>t(id TEXT PRIMARY KEY, v INTEGER)\<close>;
  a database opened on it; the same after the authority confirmed a remote insert of
  \<open>{id: "x", v: 1}\<close> as \<open>seq = 1\<close> (which sets the checkpoint at 1); and after the local
  \<open>update('t', {v: 2}, {id: 'x'})\<close>, which is then pending.
\<close>

definition host0 :: host where
  "host0 = \<lparr>localStorage = Map.empty, console = [], initSqlJs = True\<rparr>"

definition schemaT :: tableSchema where
  "schemaT = \<lparr>ts_name = ''t'',
     ts_columns = [\<lparr>col_name = ''id'', col_type = ''TEXT'', col_nullable = None, col_default = None\<rparr>,
                   \<lparr>col_name = ''v'', col_type = ''INTEGER'', col_nullable = None, col_default = None\<rparr>],
     ts_primaryKey = Some ''id''\<rparr>"

definition opened :: state where
  "opened = snd (createTable schemaT (snd (init (newDatabase ''app'' ''c1'', host0))))"

definition remoteInsert :: operation where
  "remoteInsert = \<lparr>op_id = ''c2_1_5'', op_seq = 1, op_table = ''t'', op_type = ''INSERT'',
     op_data = [(''id'', JStr ''x''), (''v'', JNum 1)], op_clientId = ''c2'',
     op_localSeq = Some (Num 1)\<rparr>"

definition anchored :: state where
  "anchored = snd (applyOperation remoteInsert opened)"

definition withPending :: state where
  "withPending = snd (update_rows ''t'' [(''v'', JNum 2)] [(''id'', JStr ''x'')] 10 anchored)"

text \<open>A remote \<open>DELETE FROM t WHERE v = 2\<close>, confirmed as \<open>seq = n\<close>.\<close>

definition remoteDelete :: "int \<Rightarrow> operation" where
  "remoteDelete n = \<lparr>op_id = ''c2_2_7'', op_seq = n, op_table = ''t'', op_type = ''DELETE'',
     op_data = [(''_where'', JObj [(''v'', JNum 2)])], op_clientId = ''c2'',
     op_localSeq = Some (Num 2)\<rparr>"


definition remoteUpsert :: operation where
  "remoteUpsert = \<lparr>op_id = ''c2_1_5'', op_seq = 1, op_table = ''t'', op_type = ''UPSERT'',
     op_data = [(''id'', JStr ''x''), (''v'', JNum 1)], op_clientId = ''c2'',
     op_localSeq = Some (Num 1)\<rparr>"

text \<open>
  Branch 3 of the reconciler in the words of the specification, to compare the code with:
  the operation is appended to the confirmed log and \<open>confirmedSeq\<close> advanced; then the
  engine is rolled back to the current checkpoint, the remote operation applied, every
  pending operation applied again, and the checkpoint set at the new \<open>confirmedSeq\<close>.
\<close>

definition specRemoteInOrder :: "operation \<Rightarrow> state \<Rightarrow> state" where
  "specRemoteInOrder op s = rollbackAndReplay op (confirm op s)"

text \<open>
  Scenario S1 on the public object: a first session creates \<open>t\<close> and inserts
  \<open>{id: "a", v: 1}\<close> while offline; the page is closed and opened again. A second
  configuration names another database in the same host.
\<close>

definition someJson :: "dbfile \<Rightarrow> string" where
  "someJson f = ''[]''"

definition cfgApp :: moduSQLConfig where
  "cfgApp = \<lparr>cfg_dbName = Some ''app'', cfg_roomId = None\<rparr>"

definition cfgOther :: moduSQLConfig where
  "cfgOther = \<lparr>cfg_dbName = Some ''other'', cfg_roomId = None\<rparr>"

definition s1_first :: state where
  "s1_first = snd (insert_row ''t'' [(''id'', JStr ''a''), (''v'', JNum 1)] 20
     (snd (createTable schemaT (snd (init (newModuSQL cfgApp someJson 1 ''abcdefghi'' host0))))))"


text \<open>A connected manager, a local operation, and an input whose envelope has a given type.\<close>

definition online :: syncManager where
  "online = \<lparr>connection = Some [], roomId = ''room'', isOnline = True, fired = []\<rparr>"

definition localOp :: pendingOperation where
  "localOp = \<lparr>p_id = ''c1_1_10'', p_localSeq = Num 1, p_table = ''t'', p_type = ''INSERT'',
     p_data = [(''id'', JStr ''y''), (''v'', JNum 5)], p_clientId = ''c1''\<rparr>"

definition inputOfType :: "string \<Rightarrow> networkInput" where
  "inputOfType ty = \<lparr>in_id = ''i1'', in_clientId = ''c2'', in_type = ''input'',
     in_data = Some \<lparr>env_type = ty, env_operation = localOp\<rparr>, in_seq = 1\<rparr>"

text \<open>
  The target table of an insert declares a primary key column, and the data to insert
  (\<open>_where\<close> removed) has a value other than \<open>null\<close> for it.
\<close>

definition keyedInsert :: "operation \<Rightarrow> database \<Rightarrow> bool" where
  "keyedInsert op d = (case db d of
       None \<Rightarrow> False
     | Some e \<Rightarrow> (case map_of (tables e) (op_table op) of
          None \<Rightarrow> False
        | Some t \<Rightarrow> (case tkey t of
             None \<Rightarrow> False
           | Some k \<Rightarrow> k \<in> set (tcolumns t)
                \<and> cell (AList.delete ''_where'' (op_data op)) k \<noteq> JNull)))"

text \<open>A table \<open>u(id TEXT, v INTEGER)\<close> declared without a primary key, and a remote insert into it.\<close>

definition schemaU :: tableSchema where
  "schemaU = \<lparr>ts_name = ''u'',
     ts_columns = [\<lparr>col_name = ''id'', col_type = ''TEXT'', col_nullable = None, col_default = None\<rparr>,
                   \<lparr>col_name = ''v'', col_type = ''INTEGER'', col_nullable = None, col_default = None\<rparr>],
     ts_primaryKey = None\<rparr>"

definition openedU :: state where
  "openedU = snd (createTable schemaU opened)"

definition remoteInsertU :: operation where
  "remoteInsertU = \<lparr>op_id = ''c2_1_5'', op_seq = 1, op_table = ''u'', op_type = ''INSERT'',
     op_data = [(''id'', JStr ''x''), (''v'', JNum 1)], op_clientId = ''c2'',
     op_localSeq = Some (Num 1)\<rparr>"

section \<open>What the apply path and the reconciler leave alone\<close>

lemma savepoints_setTable [simp]: "savepoints (setTable name t e) = savepoints e"
  by (simp add: setTable_def)



























lemma sqlRollbackTo_fresh_savepoint:
  "sqlRollbackTo n (sqlSavepoint n e) = Inr (sqlSavepoint n e)"
  by (simp add: sqlRollbackTo_def sqlSavepoint_def)

lemma flush_sends:
  "connection (foldl (\<lambda>m op. send (f op) m) m ps) = map_option (\<lambda>sent. sent @ map f ps) (connection m)"
proof (induction ps arbitrary: m)
  case Nil
  show ?case by (simp add: option.map_ident)
next
  case (Cons p ps)
  have "connection (foldl (\<lambda>m op. send (f op) m) (send (f p) m) ps)
      = map_option (\<lambda>sent. sent @ map f ps) (connection (send (f p) m))"
    by (rule Cons.IH)
  then show ?case
    by (simp add: send_def option.map_comp comp_def)
qed

lemma blobKey_inject: "(blobKey a = blobKey b) = (a = b)"
  by (simp add: blobKey_def)

lemma generateClientId_shared:
  "fst (generateClientId jsonText n2 r2 (snd (generateClientId jsonText n1 r1 h))) = fst (generateClientId jsonText n1 r1 h)"
  by (simp add: generateClientId_def Let_def split: option.splits stored.splits)

lemma generateClientId_other_keys:
  "k \<noteq> clientIdKey \<Longrightarrow> localStorage (snd (generateClientId jsonText now rnd h)) k = localStorage h k"
  by (simp add: generateClientId_def Let_def split: option.splits stored.splits)

lemma map_of_setTable:
  "map_of (tables (setTable name t e)) = (map_of (tables e))(name \<mapsto> t)"
  by (simp add: setTable_def update_conv')

lemma setTable_twice: "setTable name t (setTable name t' e) = setTable name t e"
  by (simp add: setTable_def)

lemma cell_built_row:
  "k \<in> set cols \<Longrightarrow> cell (map (\<lambda>c. (c, f c)) cols) k = f k"
  by (induction cols) (auto simp: cell_def)

lemma sqlInsert_idem:
  assumes ins: "sqlInsert True name kvs e = Inr e'"
    and t: "map_of (tables e) name = Some t" and k: "tkey t = Some k"
    and kc: "k \<in> set (tcolumns t)" and nn: "cell kvs k \<noteq> JNull"
  shows "sqlInsert True name kvs e' = Inr e'"
proof -
  let ?r = "map (\<lambda>c. (c, cell kvs c)) (tcolumns t)"
  let ?rows = "filter (\<lambda>r'. \<not> clashes t ?r r') (trows t) @ [?r]"
  let ?t' = "t\<lparr>trows := ?rows\<rparr>"
  have pre: "kvs \<noteq> []" "set (map fst kvs) \<subseteq> set (tcolumns t)" "list_all bindable (map snd kvs)"
    using ins t by (auto simp: sqlInsert_def Let_def split: if_splits)
  have e': "e' = setTable name ?t' e"
    using ins t pre by (simp add: sqlInsert_def Let_def)
  have t': "map_of (tables e') name = Some ?t'"
    by (simp add: e' map_of_setTable)
  have self: "clashes t ?r ?r"
    using k kc nn by (simp add: clashes_def cell_built_row)
  have cl: "clashes ?t' = clashes t"
    by (simp add: clashes_def fun_eq_iff)
  have rows: "filter (\<lambda>r'. \<not> clashes t ?r r') ?rows @ [?r] = ?rows"
    using self by simp
  have "sqlInsert True name kvs e' = Inr (setTable name (?t'\<lparr>trows := filter (\<lambda>r'. \<not> clashes ?t' ?r r') ?rows @ [?r]\<rparr>) e')"
    using t' pre by (simp add: sqlInsert_def Let_def)
  also have "\<dots> = Inr (setTable name ?t' e')"
    using rows cl by simp
  also have "\<dots> = Inr e'"
    by (simp add: e' setTable_twice)
  finally show ?thesis .
qed

lemma assign_twice: "assign sets (assign sets r) = assign sets r"
  by (induction r) (auto simp: assign_def split: option.splits)

lemma sqlUpdate_idem:
  assumes upd: "sqlUpdate name sets wh e = Inr e'"
  shows "sqlUpdate name sets wh e' = Inr e'"
proof -
  from upd obtain t where t: "map_of (tables e) name = Some t"
    by (auto simp: sqlUpdate_def split: if_splits option.splits)
  define f where "f = (\<lambda>r. if matches wh r then assign sets r else r)"
  define rs where "rs = map f (trows t)"
  have pre: "sets \<noteq> []" "wh \<noteq> []" "set (map fst sets @ map fst wh) \<subseteq> set (tcolumns t)"
      "list_all bindable (map snd sets @ map snd wh)"
    using upd t by (auto simp: sqlUpdate_def Let_def split: if_splits)
  have dist: "distinct (keyvals t rs)"
    using upd t unfolding rs_def f_def by (auto simp: sqlUpdate_def Let_def split: if_splits)
  have e': "e' = setTable name (t\<lparr>trows := rs\<rparr>) e"
    using upd t unfolding rs_def f_def by (auto simp: sqlUpdate_def Let_def split: if_splits)
  have t': "map_of (tables e') name = Some (t\<lparr>trows := rs\<rparr>)"
    by (simp add: e' map_of_setTable)
  have ff: "f (f r) = f r" for r
    by (simp add: f_def assign_twice)
  have rs2: "map f rs = rs"
    by (simp add: rs_def ff)
  have kv: "keyvals (t\<lparr>trows := rs\<rparr>) = keyvals t"
    by (simp add: keyvals_def fun_eq_iff)
  have "sqlUpdate name sets wh e' =
      (if \<not> distinct (keyvals (t\<lparr>trows := rs\<rparr>) (map f rs)) then Inl ConstraintErr
       else Inr (setTable name (t\<lparr>trows := map f rs\<rparr>) e'))"
    using t' pre by (simp add: sqlUpdate_def Let_def f_def)
  also have "\<dots> = Inr (setTable name (t\<lparr>trows := rs\<rparr>) e')"
    using dist by (simp only: rs2 kv if_not_P not_not)
  also have "\<dots> = Inr e'"
    by (simp add: e' setTable_twice)
  finally show ?thesis .
qed

lemma sqlDelete_idem:
  assumes del: "sqlDelete name wh e = Inr e'"
  shows "sqlDelete name wh e' = Inr e'"
proof -
  from del obtain t where t: "map_of (tables e) name = Some t"
    by (auto simp: sqlDelete_def split: if_splits option.splits)
  let ?t' = "t\<lparr>trows := filter (\<lambda>r. \<not> matches wh r) (trows t)\<rparr>"
  have pre: "wh \<noteq> []" "set (map fst wh) \<subseteq> set (tcolumns t)" "list_all bindable (map snd wh)"
    using del t by (auto simp: sqlDelete_def Let_def split: if_splits)
  have e': "e' = setTable name ?t' e"
    using del t pre by (simp add: sqlDelete_def Let_def)
  have t': "map_of (tables e') name = Some ?t'"
    by (simp add: e' map_of_setTable)
  have "sqlDelete name wh e' = Inr (setTable name ?t' e')"
    using t' pre by (simp add: sqlDelete_def Let_def)
  also have "\<dots> = Inr e'"
    by (simp add: e' setTable_twice)
  finally show ?thesis .
qed

lemma tryRun_twice:
  assumes "\<And>e e'. db d = Some e \<Longrightarrow> stmt e = Inr e' \<Longrightarrow> stmt e' = Inr e'"
  shows "db (fst (tryRun stmt msg (tryRun stmt msg (d, h)))) = db (fst (tryRun stmt msg (d, h)))"
proof (cases "db d")
  case None
  then show ?thesis by (simp add: tryRun_def logTo_def)
next
  case (Some e)
  show ?thesis
  proof (cases "stmt e")
    case (Inl err)
    then show ?thesis using Some by (simp add: tryRun_def logTo_def)
  next
    case (Inr e')
    then have "stmt e' = Inr e'" using assms Some by blast
    then show ?thesis using Some Inr by (simp add: tryRun_def setDb_def)
  qed
qed




section \<open>The claims\<close>








text \<open>
  C10. An operation whose \<open>type\<close> is none of \<open>INSERT\<close>, \<open>UPDATE\<close>, \<open>DELETE\<close> falls
  through the \<open>switch\<close> of \<open>applyOp\<close>: the state, and with it every table, is unchanged.
\<close>

theorem applyOp_unknown_type:
  assumes "op_type op \<notin> {''INSERT'', ''UPDATE'', ''DELETE''}"
  shows "applyOp op s = s"
  using assms by (simp add: applyOp_def)

theorem applyOp_unknown_type_witness:
  "op_type remoteUpsert \<notin> {''INSERT'', ''UPDATE'', ''DELETE''}
   \<and> applyOp remoteUpsert anchored = anchored"
proof -
  have t: "op_type remoteUpsert \<notin> {''INSERT'', ''UPDATE'', ''DELETE''}"
    by (simp add: remoteUpsert_def)
  show ?thesis
    using t applyOp_unknown_type[OF t, of anchored] by simp
qed



text \<open>
  C2, at the failing input. The checkpoint is at 1 with \<open>t = [{id: "x", v: 1}]\<close>, the local
  \<open>UPDATE t SET v = 2 WHERE id = 'x'\<close> is pending, and the remote
  \<open>DELETE FROM t WHERE v = 2\<close> arrives in order as \<open>seq = 2\<close>. \<open>applyOperation\<close> applies
  it on top of the pending update and calls \<open>createSavepoint\<close> before \<open>rollbackAndReplay\<close>;
  a rollback to a savepoint that was just set restores nothing. The row is gone. In the
  order of the specification the delete meets \<open>v = 1\<close>, removes nothing, and the replayed
  update leaves \<open>[{id: "x", v: 2}]\<close>.
\<close>

theorem remote_in_order_replay_diverges:
  "sqlRollbackTo n (sqlSavepoint n e) = Inr (sqlSavepoint n e)
   \<and> query ''t'' withPending = Inr [[(''id'', JStr ''x''), (''v'', JNum 2)]]
   \<and> op_seq (remoteDelete 2) = confirmedSeq (fst withPending) + 1
   \<and> findIndex (\<lambda>p. p_id p = op_id (remoteDelete 2)) (pendingOps (fst withPending)) = None
   \<and> query ''t'' (snd (applyOperation (remoteDelete 2) withPending)) = Inr []
   \<and> query ''t'' (specRemoteInOrder (remoteDelete 2) withPending)
        = Inr [[(''id'', JStr ''x''), (''v'', JNum 2)]]"
proof -
  have b: "query ''t'' withPending = Inr [[(''id'', JStr ''x''), (''v'', JNum 2)]]" by code_simp
  have c: "op_seq (remoteDelete 2) = confirmedSeq (fst withPending) + 1" by code_simp
  have d: "findIndex (\<lambda>p. p_id p = op_id (remoteDelete 2)) (pendingOps (fst withPending)) = None"
    by code_simp
  have e: "query ''t'' (snd (applyOperation (remoteDelete 2) withPending)) = Inr []" by code_simp
  have f: "query ''t'' (specRemoteInOrder (remoteDelete 2) withPending)
        = Inr [[(''id'', JStr ''x''), (''v'', JNum 2)]]" by code_simp
  show ?thesis using sqlRollbackTo_fresh_savepoint b c d e f by simp
qed

text \<open>
  C4, as amended. Every envelope put on the wire, by \<open>handleLocalOperation\<close> or by
  \<open>flushPendingOps\<close>, has the type \<open>sumql_op\<close> and carries the operation; nothing is
  sent while offline or without a connection. An input without data, or whose envelope
  has any other type (the type \<open>op\<close> among them), is ignored: \<open>inputToOperation\<close> gives
  \<open>null\<close>, \<open>onInput\<close> changes nothing and fires no callback, and \<open>onJoin\<close> skips it.
\<close>

theorem wire_envelope_type:
  "connection (handleLocalOperation op m) =
     (if isOnline m
      then map_option (\<lambda>sent. sent @ [\<lparr>env_type = ''sumql_op'', env_operation = op\<rparr>]) (connection m)
      else connection m)
   \<and> connection (flushPendingOps ps m) =
     (if isOnline m
      then map_option (\<lambda>sent. sent @ map (\<lambda>op. \<lparr>env_type = ''sumql_op'', env_operation = op\<rparr>) ps)
             (connection m)
      else connection m)
   \<and> ((case in_data input of None \<Rightarrow> True | Some env \<Rightarrow> env_type env \<noteq> ''sumql_op'')
        \<longrightarrow> inputToOperation input = None \<and> onInput input s = (Inr (), s)
            \<and> applyInputs (input # rest) ops s = applyInputs rest ops s)"
proof -
  have a: "connection (handleLocalOperation op m) =
     (if isOnline m
      then map_option (\<lambda>sent. sent @ [\<lparr>env_type = ''sumql_op'', env_operation = op\<rparr>]) (connection m)
      else connection m)"
    by (cases "connection m") (simp_all add: handleLocalOperation_def send_def)
  have b: "connection (flushPendingOps ps m) =
     (if isOnline m
      then map_option (\<lambda>sent. sent @ map (\<lambda>op. \<lparr>env_type = ''sumql_op'', env_operation = op\<rparr>) ps)
             (connection m)
      else connection m)"
    by (cases "connection m") (simp_all add: flushPendingOps_def flush_sends)
  have c: "(case in_data input of None \<Rightarrow> True | Some env \<Rightarrow> env_type env \<noteq> ''sumql_op'')
        \<longrightarrow> inputToOperation input = None"
    by (simp add: inputToOperation_def split: option.splits)
  show ?thesis
    using a b c by (simp add: onInput_def)
qed

theorem wire_envelope_type_witness:
  "onInput (inputOfType ''op'') opened = (Inr (), opened)
   \<and> applyInputs [inputOfType ''op''] [] opened = (Inr [], opened)"
proof -
  have h: "case in_data (inputOfType ''op'') of None \<Rightarrow> True | Some env \<Rightarrow> env_type env \<noteq> ''sumql_op''"
    by (simp add: inputOfType_def)
  show ?thesis
    using h wire_envelope_type[of localOp online "[]" "inputOfType ''op''" opened "[]" "[]"]
    by simp
qed

theorem wire_envelope_type_counterexample:
  "map env_type (case connection (handleLocalOperation localOp online) of None \<Rightarrow> [] | Some sent \<Rightarrow> sent)
     = [''sumql_op'']
   \<and> ''sumql_op'' \<noteq> ''op''
   \<and> inputToOperation (inputOfType ''op'') = None
   \<and> inputToOperation (inputOfType ''sumql_op'') = Some (withSeq localOp 1)"
  by (simp add: handleLocalOperation_def online_def send_def inputToOperation_def inputOfType_def)

text \<open>
  C9, as amended. The serialized database is stored under \<open>modusql_<dbName>\<close>: different
  names give different keys, and \<open>persist\<close> leaves the cell of every other name alone.
  The client id is stored under the one key \<open>modusql_client_id\<close>, whatever the database
  name: \<open>generateClientId\<close> touches no other key, and an object constructed after another
  one in the same host has the same client id, for any two configurations.
\<close>

theorem storage_keys:
  "(blobKey a = blobKey b) = (a = b)
   \<and> (dbName d \<noteq> n \<longrightarrow> localStorage (snd (persist (d, h))) (blobKey n) = localStorage h (blobKey n))
   \<and> (k \<noteq> clientIdKey \<longrightarrow> localStorage (snd (generateClientId jsonText now rnd h1)) k = localStorage h1 k)
   \<and> clientId (fst (newModuSQL cfgB jsonText n2 r2 (snd (newModuSQL cfgA jsonText n1 r1 h2))))
       = clientId (fst (newModuSQL cfgA jsonText n1 r1 h2))"
proof -
  have p: "dbName d \<noteq> n \<longrightarrow> localStorage (snd (persist (d, h))) (blobKey n) = localStorage h (blobKey n)"
    by (simp add: persist_def blobKey_inject split: option.splits)
  have c: "clientId (fst (newModuSQL cfgB jsonText n2 r2 (snd (newModuSQL cfgA jsonText n1 r1 h2))))
       = clientId (fst (newModuSQL cfgA jsonText n1 r1 h2))"
    using generateClientId_shared[of jsonText n2 r2 n1 r1 h2]
    by (simp add: newModuSQL_def newDatabase_def split_beta)
  show ?thesis
    using blobKey_inject p generateClientId_other_keys c by blast
qed

theorem storage_keys_witness:
  "dbName (fst s1_first) \<noteq> ''other''
   \<and> localStorage (snd (persist s1_first)) (blobKey ''other'') = localStorage (snd s1_first) (blobKey ''other'')
   \<and> blobKey ''other'' \<noteq> clientIdKey
   \<and> localStorage (snd (generateClientId someJson 2 ''zzzzzzzzz'' host0)) (blobKey ''other'')
       = localStorage host0 (blobKey ''other'')"
proof -
  have a: "dbName (fst s1_first) \<noteq> ''other''" by code_simp
  have b: "blobKey ''other'' \<noteq> clientIdKey" by code_simp
  show ?thesis
    using a b storage_keys[where d = "fst s1_first" and n = "''other''" and h = "snd s1_first"
        and k = "blobKey ''other''" and jsonText = someJson and now = 2 and rnd = "''zzzzzzzzz''" and ?h1.0 = host0]
    by simp
qed

theorem storage_keys_counterexample:
  "cfg_dbName cfgApp \<noteq> cfg_dbName cfgOther
   \<and> localStorage (snd (newModuSQL cfgApp someJson 1 ''abcdefghi'' host0)) clientIdKey
        = Some (Text ''client_1_abcdefghi'')
   \<and> clientId (fst (newModuSQL cfgOther someJson 2 ''zzzzzzzzz''
        (snd (newModuSQL cfgApp someJson 1 ''abcdefghi'' host0)))) = ''client_1_abcdefghi''"
  by code_simp

text \<open>
  C6, as amended. Applying an operation twice in succession through \<open>applyOp\<close> leaves
  the engine (tables and savepoints) as it is after the first apply, for every \<open>UPDATE\<close>
  and \<open>DELETE\<close> (and every other type), and for every \<open>INSERT\<close> into a table that declares
  a primary key for which the data holds a value other than \<open>null\<close>. On a table
  without a primary key \<open>INSERT OR REPLACE\<close> has nothing to replace and the second apply
  adds a second row.
\<close>

theorem apply_twice:
  assumes "op_type op = ''INSERT'' \<longrightarrow> keyedInsert op d"
  shows "db (fst (applyOp op (applyOp op (d, h)))) = db (fst (applyOp op (d, h)))"
proof -
  consider (ins) "op_type op = ''INSERT''" | (upd) "op_type op = ''UPDATE''"
    | (del) "op_type op = ''DELETE''"
    | (other) "op_type op \<notin> {''INSERT'', ''UPDATE'', ''DELETE''}"
    by auto
  then show ?thesis
  proof cases
    case ins
    have "\<And>e e'. db d = Some e \<Longrightarrow>
        sqlInsert True (op_table op) (AList.delete ''_where'' (op_data op)) e = Inr e' \<Longrightarrow>
        sqlInsert True (op_table op) (AList.delete ''_where'' (op_data op)) e' = Inr e'"
    proof -
      fix e e'
      assume e: "db d = Some e"
        and i: "sqlInsert True (op_table op) (AList.delete ''_where'' (op_data op)) e = Inr e'"
      from assms ins e obtain t k where "map_of (tables e) (op_table op) = Some t" "tkey t = Some k"
          "k \<in> set (tcolumns t)" "cell (AList.delete ''_where'' (op_data op)) k \<noteq> JNull"
        by (auto simp: keyedInsert_def split: option.splits)
      then show "sqlInsert True (op_table op) (AList.delete ''_where'' (op_data op)) e' = Inr e'"
        using sqlInsert_idem[OF i] by blast
    qed
    from tryRun_twice[of d "sqlInsert True (op_table op) (AList.delete ''_where'' (op_data op))", OF this]
    show ?thesis using ins by (simp add: applyOp_def applyInsert_def)
  next
    case upd
    then have ni: "op_type op \<noteq> ''INSERT''" by simp
    from tryRun_twice[of d "sqlUpdate (op_table op) (AList.delete ''_where'' (op_data op)) (whereOf (op_data op))"]
    show ?thesis using upd ni sqlUpdate_idem by (simp add: applyOp_def applyUpdate_def)
  next
    case del
    then have ni: "op_type op \<noteq> ''INSERT''" "op_type op \<noteq> ''UPDATE''" by simp_all
    from tryRun_twice[of d "sqlDelete (op_table op) (whereOf (op_data op))"]
    show ?thesis using del ni sqlDelete_idem by (simp add: applyOp_def applyDelete_def)
  next
    case other
    then show ?thesis by (simp add: applyOp_def)
  qed
qed

theorem apply_twice_witness:
  "keyedInsert remoteInsert (fst opened)
   \<and> db (fst (applyOp remoteInsert (applyOp remoteInsert opened))) = db (fst (applyOp remoteInsert opened))"
proof -
  have k: "keyedInsert remoteInsert (fst opened)" by code_simp
  show ?thesis
    using k apply_twice[of remoteInsert "fst opened" "snd opened"] by simp
qed

theorem apply_twice_counterexample:
  "query ''u'' (applyOp remoteInsertU openedU) = Inr [[(''id'', JStr ''x''), (''v'', JNum 1)]]
   \<and> query ''u'' (applyOp remoteInsertU (applyOp remoteInsertU openedU))
       = Inr [[(''id'', JStr ''x''), (''v'', JNum 1)], [(''id'', JStr ''x''), (''v'', JNum 1)]]"
  by code_simp

end
